theory Spec2Isabelle
  imports Main
begin

section \<open>Data model\<close>

text \<open>
  The runtime of the repository is JavaScript. Objects become records, optional
  arguments and nullable fields become \<open>option\<close> values, a thrown exception becomes the
  left summand of a sum type, and a promise becomes the value it settles with, handed
  to the handlers that the code registers on it.
\<close>

type_synonym DataID = string

datatype json =
    JNull
  | JBool bool
  | JNum int
  | JStr string
  | JArr "json list"
  | JObj "(string \<times> json) list"

type_synonym Variables = "(string \<times> json) list"

text \<open>\<open>ConcreteBatch\<close>: only the two properties read by the sources, \<open>name\<close> and \<open>query\<close>.\<close>

record ConcreteBatch =
  cb_name :: string
  cb_query :: string

record Selector =
  sel_dataID :: DataID
  sel_node :: string
  sel_variables :: Variables

record OperationSelector =
  op_fragment :: Selector
  op_node :: ConcreteBatch
  op_root :: Selector
  op_variables :: Variables

record CacheConfig =
  force :: bool

text \<open>One entry of the \<open>errors\<close> array of a raw response.\<close>

record PayloadError =
  message :: string

text \<open>
  The raw response \<open>{data, errors}\<close>. A \<open>data\<close> that is \<open>null\<close> or missing is
  \<open>JNull\<close> (the code tests \<open>data != null\<close>, which does not tell them apart); an
  \<open>errors\<close> that is missing is \<open>None\<close>, and \<open>Some []\<close> is the empty array.
\<close>

record QueryPayload =
  data :: json
  errors :: "PayloadError list option"

text \<open>The object stored by \<open>normalizePayload\<close> in the \<open>source\<close> property of its error.\<close>

record ErrorSource =
  src_errors :: "PayloadError list option"
  src_operation :: ConcreteBatch
  src_variables :: Variables

text \<open>
  Errors. An error object made by \<open>RelayError.create (name, format, ...args)\<close> is
  represented by its name, its format string and the arguments for the format;
  \<open>err_source\<close> is its \<open>source\<close> property. \<open>Failure\<close> is any other error
  value, such as the reason of a rejected fetch.
\<close>

record CreatedError =
  err_name :: string
  err_format :: string
  err_args :: "string list"
  err_source :: "ErrorSource option"

datatype js_error =
    Failure string
  | RelayError CreatedError

datatype 'a settled =
    Resolved 'a
  | Rejected js_error

subsection \<open>Records and writes\<close>

datatype field_value =
    Scalar json
  | Reference DataID

type_synonym RecordSource = "DataID \<rightharpoonup> (string \<rightharpoonup> field_value)"

type_synonym field_write = "DataID \<times> string \<times> field_value"

text \<open>A normalized response: the writes \<open>(identity, field, value)\<close> it makes.\<close>

type_synonym RelayResponsePayload = "field_write list"

record NormalizationOptions =
  handleStrippedNulls :: bool

text \<open>
  The module \<open>normalizeRelayPayload\<close> is required by the environment and by the
  network, but its source is not among the files covered here, so every function that
  calls \<open>normalizeRelayPayload (selector, data, options)\<close> takes it as its first
  argument. The third argument is \<open>None\<close> where the call passes two arguments only.
\<close>

type_synonym normalizer =
  "Selector \<Rightarrow> json \<Rightarrow> NormalizationOptions option \<Rightarrow> RelayResponsePayload"

record Snapshot =
  snap_data :: json
  snap_seenRecords :: "DataID list"

text \<open>The store is an object of the configuration; its \<open>lookup\<close> is a parameter too.\<close>

type_synonym store_lookup = "RecordSource \<Rightarrow> Selector \<Rightarrow> Snapshot"

text \<open>
  An updater is a function object: \<open>uref\<close> is its reference identity, \<open>uapply\<close> the
  writes it makes on a given record set.
\<close>

record StoreUpdater =
  uref :: nat
  uapply :: "RecordSource \<Rightarrow> field_write list"

subsection \<open>Observable events\<close>

text \<open>
  Every effect that a claim speaks about is appended to a trace: a call of a method of
  the publish queue, a call of \<open>fetch\<close>, a store lookup, a warning, and a call of one
  of the caller's callbacks.
\<close>

datatype event =
    Warning string string Variables string
  | Fetch ConcreteBatch Variables "CacheConfig option"
  | QueueApplyUpdate nat
  | QueueRevertUpdate nat
  | QueueCommitPayload Selector RelayResponsePayload "nat option"
  | QueueRun
  | StoreLookup Selector
  | OnNext RelayResponsePayload
  | OnCompleted
  | OnCompletedData json
  | OnError js_error

section \<open>The publish queue\<close>

text \<open>
  The module \<open>RelayPublishQueue\<close> is required by \<open>RelayStaticEnvironment\<close>, but its
  source is not among the files covered here. Every definition of this section is
  written from section 4.1 of the specification instead.
\<close>

text \<open>
  Modelled from the spec: \<open>RelayPublishQueue\<close> is missing. A pending entry is
  \<open>{commit, updater?}\<close> or \<open>{optimisticUpdate}\<close>.
\<close>

datatype entry =
    Commit Selector RelayResponsePayload "StoreUpdater option"
  | Optimistic StoreUpdater

text \<open>
  Modelled from the spec: \<open>RelayPublishQueue\<close> is missing. The queue is the list of
  pending entries in insertion order, and the last confirmed base.
\<close>

record PublishQueue =
  entries :: "entry list"
  base :: RecordSource

text \<open>
  Modelled from the spec: \<open>RelayPublishQueue\<close> is missing. A write
  \<open>(identity, field, value)\<close> gives a new record value under the same identity.
\<close>

fun write_field :: "RecordSource \<Rightarrow> field_write \<Rightarrow> RecordSource" where
  "write_field rs (i, f, v) =
     rs(i \<mapsto> (case rs i of None \<Rightarrow> Map.empty | Some r \<Rightarrow> r)(f \<mapsto> v))"

text \<open>Modelled from the spec: \<open>RelayPublishQueue\<close> is missing. A set of writes, in order.\<close>

definition apply_writes :: "RecordSource \<Rightarrow> field_write list \<Rightarrow> RecordSource" where
  "apply_writes rs ws = foldl write_field rs ws"

text \<open>
  Modelled from the spec: \<open>RelayPublishQueue\<close> is missing. A commit applies the
  payload's own writes, then its updater once, on the result.
\<close>

fun commit_entry :: "RecordSource \<Rightarrow> entry \<Rightarrow> RecordSource" where
  "commit_entry rs (Commit sel p None) = apply_writes rs p"
| "commit_entry rs (Commit sel p (Some u)) =
     (let rs1 = apply_writes rs p in apply_writes rs1 (uapply u rs1))"
| "commit_entry rs (Optimistic u) = rs"

text \<open>
  Modelled from the spec: \<open>RelayPublishQueue\<close> is missing. An optimistic update is a
  function from the current record set to a set of writes.
\<close>

fun layer_entry :: "RecordSource \<Rightarrow> entry \<Rightarrow> RecordSource" where
  "layer_entry rs (Optimistic u) = apply_writes rs (uapply u rs)"
| "layer_entry rs (Commit sel p upd) = rs"

fun is_optimistic :: "entry \<Rightarrow> bool" where
  "is_optimistic (Optimistic u) = True"
| "is_optimistic (Commit sel p upd) = False"

fun is_update_of :: "nat \<Rightarrow> entry \<Rightarrow> bool" where
  "is_update_of r (Optimistic u) = (uref u = r)"
| "is_update_of r (Commit sel p upd) = False"

text \<open>
  Modelled from the spec: \<open>RelayPublishQueue.applyUpdate\<close> is missing. It appends an
  optimistic entry and does not touch the store.
\<close>

definition queue_applyUpdate :: "StoreUpdater \<Rightarrow> PublishQueue \<Rightarrow> PublishQueue" where
  "queue_applyUpdate u q = q\<lparr>entries := entries q @ [Optimistic u]\<rparr>"

text \<open>
  Modelled from the spec: \<open>RelayPublishQueue.revertUpdate\<close> is missing. It removes the
  entry matched by reference identity, wherever it is in the queue; reverting an update
  that is not queued does nothing. The specification leaves applying one reference twice
  undefined; here every entry of the reference is removed.
\<close>

definition queue_revertUpdate :: "StoreUpdater \<Rightarrow> PublishQueue \<Rightarrow> PublishQueue" where
  "queue_revertUpdate u q =
     q\<lparr>entries := filter (\<lambda>e. \<not> is_update_of (uref u) e) (entries q)\<rparr>"

text \<open>
  Modelled from the spec: \<open>RelayPublishQueue.commitPayload\<close> is missing. It appends a
  confirmed entry.
\<close>

definition queue_commitPayload ::
  "Selector \<Rightarrow> RelayResponsePayload \<Rightarrow> StoreUpdater option \<Rightarrow> PublishQueue \<Rightarrow> PublishQueue" where
  "queue_commitPayload sel p upd q = q\<lparr>entries := entries q @ [Commit sel p upd]\<rparr>"

text \<open>
  Modelled from the spec: \<open>RelayPublishQueue.run\<close> is missing. It starts from the last
  confirmed base, applies every commit in insertion order, each followed by its
  updater, and layers every queued optimistic entry on top, in insertion order. The
  result goes to the store in one batch; the commits become part of the base, and the
  optimistic entries stay queued. \<open>queue_run\<close> returns the queue after the flush and
  the record set it publishes.
\<close>

definition queue_run :: "PublishQueue \<Rightarrow> PublishQueue \<times> RecordSource" where
  "queue_run q =
     (let b = foldl commit_entry (base q) (entries q);
          final = foldl layer_entry b (entries q)
      in (q\<lparr>entries := filter is_optimistic (entries q), base := b\<rparr>, final))"

section \<open>The environment\<close>

text \<open>
  \<open>RelayStaticEnvironment\<close>: the publish queue, the contents of the store that the
  queue publishes to, and the trace of events.
\<close>

record Environment =
  publishQueue :: PublishQueue
  store :: RecordSource
  trace :: "event list"

definition emit :: "event \<Rightarrow> Environment \<Rightarrow> Environment" where
  "emit ev s = s\<lparr>trace := trace s @ [ev]\<rparr>"

text \<open>The four calls \<open>this._publishQueue.m (...)\<close>, each leaving its event in the trace.\<close>

definition pq_applyUpdate :: "StoreUpdater \<Rightarrow> Environment \<Rightarrow> Environment" where
  "pq_applyUpdate u s =
     emit (QueueApplyUpdate (uref u)) (s\<lparr>publishQueue := queue_applyUpdate u (publishQueue s)\<rparr>)"

definition pq_revertUpdate :: "StoreUpdater \<Rightarrow> Environment \<Rightarrow> Environment" where
  "pq_revertUpdate u s =
     emit (QueueRevertUpdate (uref u)) (s\<lparr>publishQueue := queue_revertUpdate u (publishQueue s)\<rparr>)"

definition pq_commitPayload ::
  "Selector \<Rightarrow> RelayResponsePayload \<Rightarrow> StoreUpdater option \<Rightarrow> Environment \<Rightarrow> Environment" where
  "pq_commitPayload sel p upd s =
     emit (QueueCommitPayload sel p (map_option uref upd))
       (s\<lparr>publishQueue := queue_commitPayload sel p upd (publishQueue s)\<rparr>)"

definition pq_run :: "Environment \<Rightarrow> Environment" where
  "pq_run s =
     (case queue_run (publishQueue s) of
        (q, final) \<Rightarrow> emit QueueRun (s\<lparr>publishQueue := q, store := final\<rparr>))"

text \<open>
  A callback of the caller is a function on the state. \<open>cb && cb (x)\<close> calls it when
  it was given. Callbacks are taken to return normally.
\<close>

definition call0 :: "(Environment \<Rightarrow> Environment) option \<Rightarrow> Environment \<Rightarrow> Environment" where
  "call0 cb s = (case cb of None \<Rightarrow> s | Some f \<Rightarrow> f s)"

definition call1 :: "('a \<Rightarrow> Environment \<Rightarrow> Environment) option \<Rightarrow> 'a \<Rightarrow> Environment \<Rightarrow> Environment" where
  "call1 cb x s = (case cb of None \<Rightarrow> s | Some f \<Rightarrow> f x s)"

subsection \<open>applyUpdate, commitPayload, lookup\<close>

text \<open>\<open>applyUpdate\<close> returns \<open>{dispose}\<close>; \<open>applyUpdate_dispose\<close> is that closure.\<close>

definition applyUpdate :: "StoreUpdater \<Rightarrow> Environment \<Rightarrow> Environment" where
  "applyUpdate updater s = pq_run (pq_applyUpdate updater s)"

definition applyUpdate_dispose :: "StoreUpdater \<Rightarrow> Environment \<Rightarrow> Environment" where
  "applyUpdate_dispose updater s = pq_run (pq_revertUpdate updater s)"

definition commitPayload :: "normalizer \<Rightarrow> Selector \<Rightarrow> json \<Rightarrow> Environment \<Rightarrow> Environment" where
  "commitPayload normalizeRelayPayload selector payload s =
     (let relayPayload = normalizeRelayPayload selector payload None
      in pq_run (pq_commitPayload selector relayPayload None s))"

definition lookup :: "store_lookup \<Rightarrow> Selector \<Rightarrow> Environment \<Rightarrow> Snapshot \<times> Environment" where
  "lookup store_lookup selector s = (store_lookup (store s) selector, emit (StoreLookup selector) s)"

section \<open>The network\<close>

text \<open>
  \<open>RelayNetwork.create (fetch)\<close>. The promise returned by \<open>fetch\<close> is represented by
  the value it settles with (\<open>QueryPayload settled\<close>); calling \<open>fetch\<close> leaves a
  \<open>Fetch\<close> event.
\<close>

text \<open>
  Modelled from the spec: \<open>ROOT_ID\<close> of \<open>RelayStoreUtils\<close> is missing; it is the
  well-known identity of the query root. No property below depends on its value.
\<close>

definition ROOT_ID :: DataID where
  "ROOT_ID = ''client:root''"

definition newline :: string where
  "newline = [CHR 0x0A]"

text \<open>\<open>Array.prototype.join\<close>.\<close>

fun join :: "string \<Rightarrow> string list \<Rightarrow> string" where
  "join sep [] = []"
| "join sep [x] = x"
| "join sep (x # y # ys) = x @ sep @ join sep (y # ys)"

text \<open>
  Modelled from the spec: \<open>RelayError.create\<close> is missing. It constructs the error
  object; the format is kept beside its arguments and is not expanded.
\<close>

definition RelayError_create :: "string \<Rightarrow> string \<Rightarrow> string list \<Rightarrow> CreatedError" where
  "RelayError_create name format args =
     \<lparr>err_name = name, err_format = format, err_args = args, err_source = None\<rparr>"

definition warning_format :: string where
  "warning_format =
     ''RelayNetwork: Operation completed but had errors:'' @ newline @
     ''Operation: %s'' @ newline @
     ''Variables:'' @ newline @ ''%s'' @ newline @
     ''Errors:'' @ newline @ ''%s''"

definition no_data_format :: string where
  "no_data_format =
     ''No data returned for operation `%s`, got error(s):'' @ newline @ ''%s'' @
     newline @ newline @ ''See the error '' @
     ''`source` property for more information.''"

text \<open>
  \<open>normalizePayload\<close> returns the warnings it logs and either the error it throws
  (\<open>Inl\<close>) or the normalized payload. The second argument of the \<open>Warning\<close> event is
  the variables, which the code hands to \<open>JSON.stringify\<close>.
\<close>

definition normalizePayload ::
  "normalizer \<Rightarrow> ConcreteBatch \<Rightarrow> Variables \<Rightarrow> QueryPayload \<Rightarrow>
   event list \<times> (js_error + RelayResponsePayload)" where
  "normalizePayload normalizeRelayPayload operation variables payload =
     (if data payload \<noteq> JNull then
        ((case errors payload of
            None \<Rightarrow> []
          | Some [] \<Rightarrow> []
          | Some (e # es) \<Rightarrow>
              [Warning warning_format (cb_name operation) variables
                 (join newline (map (\<lambda>x. ''- '' @ message x) (e # es)))]),
         Inr (normalizeRelayPayload
                \<lparr>sel_dataID = ROOT_ID, sel_node = cb_query operation, sel_variables = variables\<rparr>
                (data payload)
                (Some \<lparr>handleStrippedNulls = True\<rparr>)))
      else
        (let error = RelayError_create ''RelayNetwork'' no_data_format
               [cb_name operation,
                (case errors payload of
                   Some es \<Rightarrow> join newline (map message es)
                 | None \<Rightarrow> ''(No errors)'')]
         in ([], Inl (RelayError (error\<lparr>err_source :=
                Some \<lparr>src_errors = errors payload, src_operation = operation,
                      src_variables = variables\<rparr>\<rparr>)))))"

definition emits :: "event list \<Rightarrow> Environment \<Rightarrow> Environment" where
  "emits evs s = s\<lparr>trace := trace s @ evs\<rparr>"

text \<open>
  \<open>request\<close>: the call of \<open>fetch\<close>, and what the returned promise settles with once
  the promise of \<open>fetch\<close> has settled: the reason of \<open>fetch\<close>, the error thrown
  by \<open>normalizePayload\<close>, or the normalized payload.
\<close>

definition request ::
  "ConcreteBatch \<Rightarrow> Variables \<Rightarrow> CacheConfig option \<Rightarrow> Environment \<Rightarrow> Environment" where
  "request operation variables cacheConfig s = emit (Fetch operation variables cacheConfig) s"

definition request_settled ::
  "normalizer \<Rightarrow> ConcreteBatch \<Rightarrow> Variables \<Rightarrow> QueryPayload settled \<Rightarrow>
   event list \<times> RelayResponsePayload settled" where
  "request_settled normalizeRelayPayload operation variables fetched =
     (case fetched of
        Rejected error \<Rightarrow> ([], Rejected error)
      | Resolved payload \<Rightarrow>
          (case normalizePayload normalizeRelayPayload operation variables payload of
             (ws, Inl err) \<Rightarrow> (ws, Rejected err)
           | (ws, Inr relayPayload) \<Rightarrow> (ws, Resolved relayPayload)))"

record Observer =
  obs_onCompleted :: "(Environment \<Rightarrow> Environment) option"
  obs_onError :: "(js_error \<Rightarrow> Environment \<Rightarrow> Environment) option"
  obs_onNext :: "(RelayResponsePayload \<Rightarrow> Environment \<Rightarrow> Environment) option"

text \<open>The closure of one \<open>requestSubscription\<close> call: its arguments and \<open>isDisposed\<close>.\<close>

record Subscription =
  sub_operation :: ConcreteBatch
  sub_variables :: Variables
  sub_observer :: Observer
  sub_isDisposed :: bool

definition requestSubscription ::
  "ConcreteBatch \<Rightarrow> Variables \<Rightarrow> CacheConfig option \<Rightarrow> Observer \<Rightarrow> Environment \<Rightarrow>
   Subscription \<times> Environment" where
  "requestSubscription operation variables cacheConfig observer s =
     (\<lparr>sub_operation = operation, sub_variables = variables, sub_observer = observer,
       sub_isDisposed = False\<rparr>,
      emit (Fetch operation variables cacheConfig) s)"

definition requestSubscription_dispose :: "Subscription \<Rightarrow> Subscription" where
  "requestSubscription_dispose sub = sub\<lparr>sub_isDisposed := True\<rparr>"

text \<open>The two handlers given to \<open>then\<close>, chosen by how the promise of \<open>fetch\<close> settles.\<close>

definition requestSubscription_settled ::
  "normalizer \<Rightarrow> QueryPayload settled \<Rightarrow> Subscription \<Rightarrow> Environment \<Rightarrow> Environment" where
  "requestSubscription_settled normalizeRelayPayload fetched sub s =
     (case fetched of
        Resolved payload \<Rightarrow>
          (if sub_isDisposed sub then s
           else
             (case normalizePayload normalizeRelayPayload (sub_operation sub)
                     (sub_variables sub) payload of
                (ws, Inl err) \<Rightarrow> call1 (obs_onError (sub_observer sub)) err (emits ws s)
              | (ws, Inr relayPayload) \<Rightarrow>
                  call0 (obs_onCompleted (sub_observer sub))
                    (call1 (obs_onNext (sub_observer sub)) relayPayload (emits ws s))))
      | Rejected error \<Rightarrow>
          (if sub_isDisposed sub then s
           else call1 (obs_onError (sub_observer sub)) error s))"

section \<open>Queries, subscriptions and mutations of the environment\<close>

subsection \<open>sendQuery\<close>

record Query =
  q_onCompleted :: "(Environment \<Rightarrow> Environment) option"
  q_onError :: "(js_error \<Rightarrow> Environment \<Rightarrow> Environment) option"
  q_onNext :: "(RelayResponsePayload \<Rightarrow> Environment \<Rightarrow> Environment) option"
  q_operation :: OperationSelector
  q_isDisposed :: bool

definition sendQuery ::
  "CacheConfig option \<Rightarrow> (Environment \<Rightarrow> Environment) option \<Rightarrow>
   (js_error \<Rightarrow> Environment \<Rightarrow> Environment) option \<Rightarrow>
   (RelayResponsePayload \<Rightarrow> Environment \<Rightarrow> Environment) option \<Rightarrow>
   OperationSelector \<Rightarrow> Environment \<Rightarrow> Query \<times> Environment" where
  "sendQuery cacheConfig onCompleted onError onNext operation s =
     (\<lparr>q_onCompleted = onCompleted, q_onError = onError, q_onNext = onNext,
       q_operation = operation, q_isDisposed = False\<rparr>,
      request (op_node operation) (op_variables operation) cacheConfig s)"

definition sendQuery_dispose :: "Query \<Rightarrow> Query" where
  "sendQuery_dispose q = q\<lparr>q_isDisposed := True\<rparr>"

definition sendQuery_then :: "RelayResponsePayload \<Rightarrow> Query \<Rightarrow> Environment \<Rightarrow> Environment" where
  "sendQuery_then payload q s =
     (if q_isDisposed q then s
      else
        (let s1 = pq_commitPayload (op_fragment (q_operation q)) payload None s;
             s2 = pq_run s1;
             s3 = call1 (q_onNext q) payload s2
         in call0 (q_onCompleted q) s3))"

definition sendQuery_catch :: "js_error \<Rightarrow> Query \<Rightarrow> Environment \<Rightarrow> Environment" where
  "sendQuery_catch error q s =
     (if q_isDisposed q then s else call1 (q_onError q) error s)"

text \<open>
  \<open>request (...).then (h).catch (g)\<close>: a resolved promise runs \<open>h\<close>, a rejected one
  runs \<open>g\<close>. Nothing that \<open>h\<close> calls throws here, so \<open>g\<close> never runs after \<open>h\<close>.
\<close>

definition sendQuery_settled ::
  "RelayResponsePayload settled \<Rightarrow> Query \<Rightarrow> Environment \<Rightarrow> Environment" where
  "sendQuery_settled outcome q s =
     (case outcome of
        Resolved payload \<Rightarrow> sendQuery_then payload q s
      | Rejected error \<Rightarrow> sendQuery_catch error q s)"

text \<open>The same, from the settling of \<open>fetch\<close>, with \<open>RelayNetwork\<close> as the network.\<close>

definition sendQuery_fetched ::
  "normalizer \<Rightarrow> QueryPayload settled \<Rightarrow> Query \<Rightarrow> Environment \<Rightarrow> Environment" where
  "sendQuery_fetched normalizeRelayPayload fetched q s =
     (case request_settled normalizeRelayPayload (op_node (q_operation q))
             (op_variables (q_operation q)) fetched of
        (ws, outcome) \<Rightarrow> sendQuery_settled outcome q (emits ws s))"

subsection \<open>sendQuerySubscription\<close>

definition sendQuerySubscription ::
  "CacheConfig option \<Rightarrow> (Environment \<Rightarrow> Environment) option \<Rightarrow>
   (js_error \<Rightarrow> Environment \<Rightarrow> Environment) option \<Rightarrow>
   (RelayResponsePayload \<Rightarrow> Environment \<Rightarrow> Environment) option \<Rightarrow>
   OperationSelector \<Rightarrow> Environment \<Rightarrow> Subscription \<times> Environment" where
  "sendQuerySubscription cacheConfig onCompleted onError onNext operation s =
     requestSubscription (op_node operation) (op_variables operation) cacheConfig
       \<lparr>obs_onCompleted = onCompleted,
        obs_onError = onError,
        obs_onNext = Some (\<lambda>payload s0.
          (let s1 = pq_commitPayload (op_fragment operation) payload None s0;
               s2 = pq_run s1
           in call1 onNext payload s2))\<rparr>
       s"

subsection \<open>sendMutation\<close>

text \<open>
  The closure of one \<open>sendMutation\<close> call. \<open>dispose\<close> assigns to \<open>optimisticUpdater\<close>
  and to \<open>isDisposed\<close>; the other variables never change.
\<close>

record Mutation =
  m_onCompleted :: "(Environment \<Rightarrow> Environment) option"
  m_onError :: "(js_error \<Rightarrow> Environment \<Rightarrow> Environment) option"
  m_operation :: OperationSelector
  m_optimisticUpdater :: "StoreUpdater option"
  m_updater :: "StoreUpdater option"
  m_isDisposed :: bool

definition sendMutation ::
  "(Environment \<Rightarrow> Environment) option \<Rightarrow> (js_error \<Rightarrow> Environment \<Rightarrow> Environment) option \<Rightarrow>
   OperationSelector \<Rightarrow> StoreUpdater option \<Rightarrow> StoreUpdater option \<Rightarrow> Environment \<Rightarrow>
   Mutation \<times> Environment" where
  "sendMutation onCompleted onError operation optimisticUpdater updater s =
     (let s1 = (case optimisticUpdater of
                  Some u \<Rightarrow> pq_run (pq_applyUpdate u s)
                | None \<Rightarrow> s)
      in (\<lparr>m_onCompleted = onCompleted, m_onError = onError, m_operation = operation,
            m_optimisticUpdater = optimisticUpdater, m_updater = updater,
            m_isDisposed = False\<rparr>,
          request (op_node operation) (op_variables operation) (Some \<lparr>force = True\<rparr>) s1))"

definition sendMutation_dispose :: "Mutation \<Rightarrow> Environment \<Rightarrow> Mutation \<times> Environment" where
  "sendMutation_dispose m s =
     (case m_optimisticUpdater m of
        Some u \<Rightarrow>
          (m\<lparr>m_optimisticUpdater := None, m_isDisposed := True\<rparr>,
           pq_run (pq_revertUpdate u s))
      | None \<Rightarrow> (m\<lparr>m_isDisposed := True\<rparr>, s))"

definition sendMutation_then :: "RelayResponsePayload \<Rightarrow> Mutation \<Rightarrow> Environment \<Rightarrow> Environment" where
  "sendMutation_then payload m s =
     (if m_isDisposed m then s
      else
        (let s1 = (case m_optimisticUpdater m of
                     Some u \<Rightarrow> pq_revertUpdate u s
                   | None \<Rightarrow> s);
             s2 = pq_commitPayload (op_fragment (m_operation m)) payload (m_updater m) s1;
             s3 = pq_run s2
         in call0 (m_onCompleted m) s3))"

definition sendMutation_catch :: "js_error \<Rightarrow> Mutation \<Rightarrow> Environment \<Rightarrow> Environment" where
  "sendMutation_catch error m s =
     (if m_isDisposed m then s
      else
        (let s1 = (case m_optimisticUpdater m of
                     Some u \<Rightarrow> pq_revertUpdate u s
                   | None \<Rightarrow> s);
             s2 = pq_run s1
         in call1 (m_onError m) error s2))"

definition sendMutation_settled ::
  "RelayResponsePayload settled \<Rightarrow> Mutation \<Rightarrow> Environment \<Rightarrow> Environment" where
  "sendMutation_settled outcome m s =
     (case outcome of
        Resolved payload \<Rightarrow> sendMutation_then payload m s
      | Rejected error \<Rightarrow> sendMutation_catch error m s)"

definition sendMutation_fetched ::
  "normalizer \<Rightarrow> QueryPayload settled \<Rightarrow> Mutation \<Rightarrow> Environment \<Rightarrow> Environment" where
  "sendMutation_fetched normalizeRelayPayload fetched m s =
     (case request_settled normalizeRelayPayload (op_node (m_operation m))
             (op_variables (m_operation m)) fetched of
        (ws, outcome) \<Rightarrow> sendMutation_settled outcome m (emits ws s))"

subsection \<open>commitRelayStaticMutation\<close>

text \<open>
  \<open>getOperation\<close> and \<open>createOperationSelector\<close> are taken from
  \<open>environment.unstable_internal\<close> and are parameters. The record holds the properties
  of the configuration that the function reads.
\<close>

record MutationConfig =
  cfg_mutation :: string
  cfg_variables :: Variables
  cfg_onCompleted :: "(json \<Rightarrow> Environment \<Rightarrow> Environment) option"
  cfg_onError :: "(js_error \<Rightarrow> Environment \<Rightarrow> Environment) option"
  cfg_optimisticUpdater :: "StoreUpdater option"
  cfg_updater :: "StoreUpdater option"

definition commitRelayStaticMutation ::
  "(string \<Rightarrow> ConcreteBatch) \<Rightarrow> (ConcreteBatch \<Rightarrow> Variables \<Rightarrow> OperationSelector) \<Rightarrow>
   store_lookup \<Rightarrow> MutationConfig \<Rightarrow> Environment \<Rightarrow> Mutation \<times> Environment" where
  "commitRelayStaticMutation getOperation createOperationSelector store_lookup config s =
     (let mutation = getOperation (cfg_mutation config);
          operation = createOperationSelector mutation (cfg_variables config)
      in sendMutation
           (Some (\<lambda>s0.
              (case cfg_onCompleted config of
                 Some onCompleted \<Rightarrow>
                   (case lookup store_lookup (op_fragment operation) s0 of
                      (snapshot, s1) \<Rightarrow> onCompleted (snap_data snapshot) s1)
               | None \<Rightarrow> s0)))
           (cfg_onError config) operation (cfg_optimisticUpdater config)
           (cfg_updater config) s)"

section \<open>Vocabulary of the properties\<close>

text \<open>
  A caller's callback that only observes: it leaves one event in the trace and touches
  nothing else. \<open>given\<close> says whether the caller passed the callback at all.
\<close>

definition notify0 :: "bool \<Rightarrow> event \<Rightarrow> (Environment \<Rightarrow> Environment) option" where
  "notify0 given ev = (if given then Some (emit ev) else None)"

definition notify1 :: "bool \<Rightarrow> ('a \<Rightarrow> event) \<Rightarrow> ('a \<Rightarrow> Environment \<Rightarrow> Environment) option" where
  "notify1 given ev = (if given then Some (\<lambda>x. emit (ev x)) else None)"

definition told :: "bool \<Rightarrow> event \<Rightarrow> event list" where
  "told given ev = (if given then [ev] else [])"

text \<open>
  A state is synced when the queue holds no commit that waits for a flush and the store
  shows the base with the queued optimistic updates on top: the state after any \<open>run\<close>.
\<close>

definition synced :: "Environment \<Rightarrow> bool" where
  "synced s \<longleftrightarrow>
     list_all is_optimistic (entries (publishQueue s)) \<and>
     store s = foldl layer_entry (base (publishQueue s)) (entries (publishQueue s))"

text \<open>How many queued entries carry the reference of the updater \<open>u\<close>.\<close>

definition queued_count :: "StoreUpdater \<Rightarrow> Environment \<Rightarrow> nat" where
  "queued_count u s = length (filter (is_update_of (uref u)) (entries (publishQueue s)))"

text \<open>Any activity on the queue between applying an update and reverting it.\<close>

datatype queue_op =
    ApplyUpdate StoreUpdater
  | RevertUpdate StoreUpdater
  | CommitPayload Selector RelayResponsePayload "StoreUpdater option"
  | Run

fun do_op :: "queue_op \<Rightarrow> Environment \<Rightarrow> Environment" where
  "do_op (ApplyUpdate v) s = pq_applyUpdate v s"
| "do_op (RevertUpdate v) s = pq_revertUpdate v s"
| "do_op (CommitPayload sel p upd) s = pq_commitPayload sel p upd s"
| "do_op Run s = pq_run s"

fun do_ops :: "queue_op list \<Rightarrow> Environment \<Rightarrow> Environment" where
  "do_ops [] s = s"
| "do_ops (x # xs) s = do_ops xs (do_op x s)"

text \<open>Two queues that agree on the base and on every entry but those of reference \<open>r\<close>.\<close>

definition same_but :: "nat \<Rightarrow> PublishQueue \<Rightarrow> PublishQueue \<Rightarrow> bool" where
  "same_but r q q' \<longleftrightarrow>
     base q = base q' \<and>
     filter (\<lambda>e. \<not> is_update_of r e) (entries q) = filter (\<lambda>e. \<not> is_update_of r e) (entries q')"

fun is_warning :: "event \<Rightarrow> bool" where
  "is_warning (Warning fmt name vars listing) = True"
| "is_warning ev = False"

text \<open>The selector that \<open>normalizePayload\<close> builds for the normalizer.\<close>

definition root_selector :: "ConcreteBatch \<Rightarrow> Variables \<Rightarrow> Selector" where
  "root_selector operation variables =
     \<lparr>sel_dataID = ROOT_ID, sel_node = cb_query operation, sel_variables = variables\<rparr>"

definition read_field :: "RecordSource \<Rightarrow> DataID \<Rightarrow> string \<Rightarrow> field_value option" where
  "read_field rs i f = (case rs i of None \<Rightarrow> None | Some r \<Rightarrow> r f)"

subsection \<open>A concrete scenario\<close>

text \<open>
  One post with \<open>likeCount = 7\<close>, an optimistic updater that adds one like, and a
  server that confirms \<open>likeCount = 42\<close>.
\<close>

definition example_records :: RecordSource where
  "example_records = [''post:1'' \<mapsto> [''likeCount'' \<mapsto> Scalar (JNum 7)]]"

definition example_environment :: Environment where
  "example_environment =
     \<lparr>publishQueue = \<lparr>entries = [], base = example_records\<rparr>,
      store = example_records, trace = []\<rparr>"

definition like_updater :: StoreUpdater where
  "like_updater =
     \<lparr>uref = 1,
      uapply = (\<lambda>rs. case read_field rs ''post:1'' ''likeCount'' of
                        Some (Scalar (JNum n)) \<Rightarrow> [(''post:1'', ''likeCount'', Scalar (JNum (n + 1)))]
                      | _ \<Rightarrow> [])\<rparr>"

definition example_getOperation :: "string \<Rightarrow> ConcreteBatch" where
  "example_getOperation tag = \<lparr>cb_name = tag, cb_query = tag\<rparr>"

definition example_createOperationSelector :: "ConcreteBatch \<Rightarrow> Variables \<Rightarrow> OperationSelector" where
  "example_createOperationSelector operation variables =
     \<lparr>op_fragment = root_selector operation variables, op_node = operation,
      op_root = root_selector operation variables, op_variables = variables\<rparr>"

definition example_operation :: OperationSelector where
  "example_operation =
     example_createOperationSelector (example_getOperation ''LikeMutation'') []"

definition server_payload :: RelayResponsePayload where
  "server_payload = [(''post:1'', ''likeCount'', Scalar (JNum 42))]"

text \<open>
  A normalizer for the scenario: it writes the \<open>likeCount\<close> of the response, and
  writes a null for a missing \<open>likeCount\<close> when it is told to handle stripped nulls.
\<close>

definition example_normalizer :: normalizer where
  "example_normalizer sel d opts =
     (case d of
        JObj kvs \<Rightarrow>
          (case map_of kvs ''likeCount'' of
             Some v \<Rightarrow> [(''post:1'', ''likeCount'', Scalar v)]
           | None \<Rightarrow>
               (case opts of
                  Some options \<Rightarrow>
                    (if handleStrippedNulls options then [(''post:1'', ''likeCount'', Scalar JNull)]
                     else [])
                | None \<Rightarrow> []))
      | _ \<Rightarrow> [])"

definition example_lookup :: store_lookup where
  "example_lookup rs sel =
     \<lparr>snap_data = (case read_field rs ''post:1'' ''likeCount'' of
                     Some (Scalar v) \<Rightarrow> JObj [(''likeCount'', v)]
                   | _ \<Rightarrow> JNull),
      snap_seenRecords = [''post:1'']\<rparr>"

definition example_mutation :: "Mutation \<times> Environment" where
  "example_mutation =
     sendMutation (notify0 True OnCompleted) (notify1 True OnError) example_operation
       (Some like_updater) None example_environment"

definition example_query :: "Query \<times> Environment" where
  "example_query =
     sendQuery None (notify0 True OnCompleted) (notify1 True OnError) (notify1 True OnNext)
       example_operation example_environment"

definition example_subscription :: "Subscription \<times> Environment" where
  "example_subscription =
     sendQuerySubscription None (notify0 True OnCompleted) (notify1 True OnError)
       (notify1 True OnNext) example_operation example_environment"

definition example_config :: MutationConfig where
  "example_config =
     \<lparr>cfg_mutation = ''LikeMutation'', cfg_variables = [],
      cfg_onCompleted = notify1 True OnCompletedData,
      cfg_onError = notify1 True OnError,
      cfg_optimisticUpdater = Some like_updater,
      cfg_updater = None\<rparr>"

definition partial_response :: QueryPayload where
  "partial_response =
     \<lparr>data = JObj [(''likeCount'', JNum 42)],
      errors = Some [\<lparr>message = ''viewer is rate limited''\<rparr>]\<rparr>"

text \<open>
  The mutation of the scenario after its response, a second mutation sent with the same
  updater function, and the first handle disposed while the second request is under way.
\<close>

definition example_resolved :: Environment where
  "example_resolved =
     sendMutation_settled (Resolved server_payload) (fst example_mutation) (snd example_mutation)"

definition example_second_mutation :: "Mutation \<times> Environment" where
  "example_second_mutation =
     sendMutation (notify0 True OnCompleted) (notify1 True OnError) example_operation
       (Some like_updater) None example_resolved"

definition example_disposed_late :: "Mutation \<times> Environment" where
  "example_disposed_late =
     sendMutation_dispose (fst example_mutation) (snd example_second_mutation)"

section \<open>Auxiliary facts\<close>

lemma commit_entry_optimistic: "is_optimistic e \<Longrightarrow> commit_entry rs e = rs"
  by (cases e) simp_all

lemma layer_entry_commit: "\<not> is_optimistic e \<Longrightarrow> layer_entry rs e = rs"
  by (cases e) simp_all

lemma is_update_of_optimistic: "is_update_of r e \<Longrightarrow> is_optimistic e"
  by (cases e) simp_all

lemma foldl_commit_filter:
  "(\<And>e. \<not> P e \<Longrightarrow> is_optimistic e) \<Longrightarrow>
   foldl commit_entry rs (filter P es) = foldl commit_entry rs es"
  by (induction es arbitrary: rs) (simp_all add: commit_entry_optimistic)

lemma foldl_commit_but:
  "foldl commit_entry rs (filter (\<lambda>e. \<not> is_update_of r e) es) = foldl commit_entry rs es"
  by (rule foldl_commit_filter) (simp add: is_update_of_optimistic)

lemma foldl_commit_optimistic:
  "list_all is_optimistic es \<Longrightarrow> foldl commit_entry rs es = rs"
  by (induction es arbitrary: rs) (simp_all add: commit_entry_optimistic)

lemma foldl_layer_filter:
  "foldl layer_entry rs (filter is_optimistic es) = foldl layer_entry rs es"
  by (induction es arbitrary: rs) (simp_all add: layer_entry_commit)

lemma filter_both:
  assumes "filter P xs = filter P ys"
  shows "filter (\<lambda>x. Q x \<and> P x) xs = filter (\<lambda>x. Q x \<and> P x) ys"
proof -
  from assms have "filter Q (filter P xs) = filter Q (filter P ys)"
    by simp
  then show ?thesis
    by (simp add: conj_commute)
qed

lemmas pq_defs =
  pq_applyUpdate_def pq_revertUpdate_def pq_commitPayload_def pq_run_def emit_def
  queue_applyUpdate_def queue_revertUpdate_def queue_commitPayload_def queue_run_def

lemma same_but_do_op:
  assumes "same_but r (publishQueue s) (publishQueue t)"
  shows "same_but r (publishQueue (do_op x s)) (publishQueue (do_op x t))"
proof (cases x)
  case (ApplyUpdate v)
  with assms show ?thesis by (simp add: same_but_def pq_defs)
next
  case (RevertUpdate v)
  from assms have b: "base (publishQueue s) = base (publishQueue t)"
    and f: "filter (\<lambda>e. \<not> is_update_of r e) (entries (publishQueue s)) =
            filter (\<lambda>e. \<not> is_update_of r e) (entries (publishQueue t))"
    by (simp_all add: same_but_def)
  from b RevertUpdate filter_both [OF f, of "\<lambda>e. \<not> is_update_of (uref v) e"]
  show ?thesis
    by (simp add: same_but_def pq_defs)
next
  case (CommitPayload sel p upd)
  with assms show ?thesis by (simp add: same_but_def pq_defs)
next
  case Run
  from assms have b: "base (publishQueue s) = base (publishQueue t)"
    and f: "filter (\<lambda>e. \<not> is_update_of r e) (entries (publishQueue s)) =
            filter (\<lambda>e. \<not> is_update_of r e) (entries (publishQueue t))"
    by (simp_all add: same_but_def)
  have "foldl commit_entry (base (publishQueue s)) (entries (publishQueue s)) =
        foldl commit_entry (base (publishQueue t)) (entries (publishQueue t))"
    using b f foldl_commit_but [of "base (publishQueue s)" r "entries (publishQueue s)"]
      foldl_commit_but [of "base (publishQueue t)" r "entries (publishQueue t)"]
    by simp
  with Run filter_both [OF f, of is_optimistic] show ?thesis
    by (simp add: same_but_def pq_defs Let_def)
qed

lemma same_but_do_ops:
  "same_but r (publishQueue s) (publishQueue t) \<Longrightarrow>
   same_but r (publishQueue (do_ops xs s)) (publishQueue (do_ops xs t))"
  by (induction xs arbitrary: s t) (simp_all add: same_but_do_op)

lemma same_but_applyUpdate:
  "same_but (uref u) (publishQueue (applyUpdate u s)) (publishQueue (pq_run s))"
  by (simp add: same_but_def applyUpdate_def pq_defs Let_def commit_entry_optimistic)

lemma same_but_revert:
  "same_but (uref u) (publishQueue s) (publishQueue t) \<Longrightarrow>
   publishQueue (pq_revertUpdate u s) = publishQueue (pq_revertUpdate u t)"
  by (simp add: same_but_def pq_defs)

lemma pq_run_cong:
  "publishQueue s = publishQueue t \<Longrightarrow>
   store (pq_run s) = store (pq_run t) \<and> publishQueue (pq_run s) = publishQueue (pq_run t)"
  by (simp add: pq_defs Let_def)

lemma call0_notify0 [simp]: "call0 (notify0 g ev) s = emits (told g ev) s"
  by (simp add: call0_def notify0_def told_def emits_def emit_def)

lemma call1_notify1 [simp]: "call1 (notify1 g ev) x s = emits (told g (ev x)) s"
  by (simp add: call1_def notify1_def told_def emits_def emit_def)

lemma emits_simps [simp]:
  "trace (emits evs s) = trace s @ evs"
  "store (emits evs s) = store s"
  "publishQueue (emits evs s) = publishQueue s"
  by (simp_all add: emits_def)

lemma emit_simps [simp]:
  "trace (emit ev s) = trace s @ [ev]"
  "store (emit ev s) = store s"
  "publishQueue (emit ev s) = publishQueue s"
  by (simp_all add: emit_def)

lemma request_simps [simp]:
  "trace (request operation variables cacheConfig s) =
     trace s @ [Fetch operation variables cacheConfig]"
  "store (request operation variables cacheConfig s) = store s"
  "publishQueue (request operation variables cacheConfig s) = publishQueue s"
  by (simp_all add: request_def)

lemma pq_applyUpdate_simps [simp]:
  "trace (pq_applyUpdate u s) = trace s @ [QueueApplyUpdate (uref u)]"
  "store (pq_applyUpdate u s) = store s"
  "entries (publishQueue (pq_applyUpdate u s)) = entries (publishQueue s) @ [Optimistic u]"
  "base (publishQueue (pq_applyUpdate u s)) = base (publishQueue s)"
  by (simp_all add: pq_applyUpdate_def queue_applyUpdate_def)

lemma pq_revertUpdate_simps [simp]:
  "trace (pq_revertUpdate u s) = trace s @ [QueueRevertUpdate (uref u)]"
  "store (pq_revertUpdate u s) = store s"
  "entries (publishQueue (pq_revertUpdate u s)) =
     filter (\<lambda>e. \<not> is_update_of (uref u) e) (entries (publishQueue s))"
  "base (publishQueue (pq_revertUpdate u s)) = base (publishQueue s)"
  by (simp_all add: pq_revertUpdate_def queue_revertUpdate_def)

lemma pq_commitPayload_simps [simp]:
  "trace (pq_commitPayload sel p upd s) =
     trace s @ [QueueCommitPayload sel p (map_option uref upd)]"
  "store (pq_commitPayload sel p upd s) = store s"
  "entries (publishQueue (pq_commitPayload sel p upd s)) =
     entries (publishQueue s) @ [Commit sel p upd]"
  "base (publishQueue (pq_commitPayload sel p upd s)) = base (publishQueue s)"
  by (simp_all add: pq_commitPayload_def queue_commitPayload_def)

lemma pq_run_simps [simp]:
  "trace (pq_run s) = trace s @ [QueueRun]"
  "base (publishQueue (pq_run s)) =
     foldl commit_entry (base (publishQueue s)) (entries (publishQueue s))"
  "entries (publishQueue (pq_run s)) = filter is_optimistic (entries (publishQueue s))"
  "store (pq_run s) =
     foldl layer_entry (foldl commit_entry (base (publishQueue s)) (entries (publishQueue s)))
       (entries (publishQueue s))"
  by (simp_all add: pq_run_def queue_run_def Let_def)

lemma PublishQueue_eqI:
  "entries q = entries q' \<Longrightarrow> base q = base q' \<Longrightarrow> q = (q' :: PublishQueue)"
  by simp

lemma filter_optimistic_id: "list_all is_optimistic es \<Longrightarrow> filter is_optimistic es = es"
  by (induction es) simp_all

lemma filter_but_id:
  "filter (is_update_of r) es = [] \<Longrightarrow> filter (\<lambda>e. \<not> is_update_of r e) es = es"
  by (induction es) (simp_all split: if_splits)

text \<open>Reverting an update that is not queued and flushing changes nothing in a synced state.\<close>

lemma revert_run_absent:
  assumes "synced s" and "queued_count u s = 0"
  shows "store (pq_run (pq_revertUpdate u s)) = store s"
    and "publishQueue (pq_run (pq_revertUpdate u s)) = publishQueue s"
proof -
  from assms have o: "list_all is_optimistic (entries (publishQueue s))"
    and st: "store s = foldl layer_entry (base (publishQueue s)) (entries (publishQueue s))"
    and f: "filter (\<lambda>e. \<not> is_update_of (uref u) e) (entries (publishQueue s)) =
            entries (publishQueue s)"
    by (simp_all add: synced_def queued_count_def filter_but_id)
  from o f st show "store (pq_run (pq_revertUpdate u s)) = store s"
    by (simp add: foldl_commit_optimistic foldl_layer_filter)
  from o f show "publishQueue (pq_run (pq_revertUpdate u s)) = publishQueue s"
    by (intro PublishQueue_eqI) (simp_all add: foldl_commit_optimistic filter_optimistic_id)
qed

text \<open>Applying an update, flushing, reverting it and flushing again: back to a synced start.\<close>

lemma apply_revert_run:
  assumes "synced s" and "queued_count u s = 0"
  shows "store (pq_run (pq_revertUpdate u (emits evs (pq_run (pq_applyUpdate u s))))) = store s"
    and "publishQueue (pq_run (pq_revertUpdate u (emits evs (pq_run (pq_applyUpdate u s))))) =
         publishQueue s"
proof -
  from assms have o: "list_all is_optimistic (entries (publishQueue s))"
    and st: "store s = foldl layer_entry (base (publishQueue s)) (entries (publishQueue s))"
    and f: "filter (\<lambda>e. \<not> is_update_of (uref u) e) (entries (publishQueue s)) =
            entries (publishQueue s)"
    by (simp_all add: synced_def queued_count_def filter_but_id)
  from o have fo: "filter is_optimistic (entries (publishQueue s)) = entries (publishQueue s)"
    by (rule filter_optimistic_id)
  from o f fo st
  show "store (pq_run (pq_revertUpdate u (emits evs (pq_run (pq_applyUpdate u s))))) = store s"
    by (simp add: foldl_commit_optimistic)
  from o f fo
  show "publishQueue (pq_run (pq_revertUpdate u (emits evs (pq_run (pq_applyUpdate u s))))) =
        publishQueue s"
    by (intro PublishQueue_eqI) (simp_all add: foldl_commit_optimistic)
qed

lemma sendMutation_fields:
  assumes "sendMutation onCompleted onError operation optimisticUpdater updater s0 = (m, s1)"
  shows "m_isDisposed m = False"
    and "m_optimisticUpdater m = optimisticUpdater"
    and "m_onCompleted m = onCompleted"
    and "m_onError m = onError"
    and "m_updater m = updater"
    and "m_operation m = operation"
    and "s1 = emits [Fetch (op_node operation) (op_variables operation) (Some \<lparr>force = True\<rparr>)]
                (case optimisticUpdater of Some u \<Rightarrow> pq_run (pq_applyUpdate u s0) | None \<Rightarrow> s0)"
  using assms by (auto simp: sendMutation_def request_def emit_def emits_def Let_def)

lemma example_facts:
  "synced example_environment"
  "queued_count like_updater example_environment = 0"
  "entries (publishQueue example_environment) = []"
  "read_field (store example_environment) ''post:1'' ''likeCount'' = Some (Scalar (JNum 7))"
  by (simp_all add: synced_def queued_count_def example_environment_def read_field_def
        example_records_def)

lemma example_optimistic:
  "read_field (store (snd example_mutation)) ''post:1'' ''likeCount'' = Some (Scalar (JNum 8))"
  by (simp add: example_mutation_def sendMutation_def example_environment_def read_field_def
        example_records_def like_updater_def apply_writes_def)

lemma call1_Some: "call1 (Some f) x s = f x s"
  by (simp add: call1_def)

lemma dispose_funpow: "q_isDisposed ((sendQuery_dispose ^^ Suc n) q)"
  by (simp add: sendQuery_dispose_def)

lemma normalizePayload_data:
  assumes "data payload \<noteq> JNull"
  shows "snd (normalizePayload nrm operation variables payload) =
           Inr (nrm (root_selector operation variables) (data payload)
                  (Some \<lparr>handleStrippedNulls = True\<rparr>))"
    and "list_all is_warning (fst (normalizePayload nrm operation variables payload))"
  using assms
  by (simp_all add: normalizePayload_def root_selector_def split: option.split list.split)

lemma normalizePayload_errors:
  assumes "data payload \<noteq> JNull" and "errors payload = Some (e # es)"
  shows "normalizePayload nrm operation variables payload =
     ([Warning warning_format (cb_name operation) variables
         (join newline (map (\<lambda>x. ''- '' @ message x) (e # es)))],
      Inr (nrm (root_selector operation variables) (data payload)
             (Some \<lparr>handleStrippedNulls = True\<rparr>)))"
  using assms by (simp add: normalizePayload_def root_selector_def)

lemma normalizePayload_no_data:
  assumes "data payload = JNull"
  shows "normalizePayload nrm operation variables payload =
     ([], Inl (RelayError
        \<lparr>err_name = ''RelayNetwork'', err_format = no_data_format,
         err_args = [cb_name operation,
           (case errors payload of Some es \<Rightarrow> join newline (map message es)
            | None \<Rightarrow> ''(No errors)'')],
         err_source = Some \<lparr>src_errors = errors payload, src_operation = operation,
                            src_variables = variables\<rparr>\<rparr>))"
  using assms by (simp add: normalizePayload_def RelayError_create_def)

lemma sendQuery_fields:
  assumes "sendQuery cacheConfig onCompleted onError onNext operation s0 = (q, s1)"
  shows "q_isDisposed q = False"
    and "q_onCompleted q = onCompleted"
    and "q_onError q = onError"
    and "q_onNext q = onNext"
    and "q_operation q = operation"
  using assms by (auto simp: sendQuery_def)

lemma sendQuerySubscription_fields:
  assumes "sendQuerySubscription cacheConfig onCompleted onError onNext operation s0 = (sub, s1)"
  shows "sub_isDisposed sub = False"
    and "sub_operation sub = op_node operation"
    and "sub_variables sub = op_variables operation"
    and "obs_onCompleted (sub_observer sub) = onCompleted"
    and "obs_onError (sub_observer sub) = onError"
    and "obs_onNext (sub_observer sub) = Some (\<lambda>payload s0.
           call1 onNext payload (pq_run (pq_commitPayload (op_fragment operation) payload None s0)))"
  using assms by (auto simp: sendQuerySubscription_def requestSubscription_def Let_def)

lemma example_normalized:
  "normalizePayload example_normalizer (op_node example_operation)
     (op_variables example_operation) partial_response =
   ([Warning warning_format ''LikeMutation'' [] ''- viewer is rate limited''],
    Inr server_payload)"
  by (simp add: normalizePayload_def partial_response_def example_normalizer_def
        example_operation_def example_createOperationSelector_def example_getOperation_def
        server_payload_def)

lemma list_all_optimistic_but:
  "list_all is_optimistic es \<Longrightarrow> list_all is_optimistic (filter (\<lambda>e. \<not> is_update_of r e) es)"
  by (induction es) simp_all

lemma example_mutation_fields:
  "m_optimisticUpdater (fst example_mutation) = Some like_updater"
  "m_isDisposed (fst example_mutation) = False"
  "m_updater (fst example_mutation) = None"
  "m_onCompleted (fst example_mutation) = notify0 True OnCompleted"
  "m_operation (fst example_mutation) = example_operation"
  by (simp_all add: example_mutation_def sendMutation_def)

lemma example_resolved_state:
  "entries (publishQueue example_resolved) = []"
  "read_field (base (publishQueue example_resolved)) ''post:1'' ''likeCount'' =
     Some (Scalar (JNum 42))"
  "read_field (store example_resolved) ''post:1'' ''likeCount'' = Some (Scalar (JNum 42))"
  by (simp_all add: example_resolved_def sendMutation_settled_def sendMutation_then_def
        example_mutation_fields)
     (simp_all add: example_mutation_def sendMutation_def example_environment_def
        example_records_def like_updater_def server_payload_def apply_writes_def read_field_def)

section \<open>The claims\<close>

subsection \<open>C1: a mutation whose request fails\<close>

text \<open>
  Claim C1. A mutation is sent with an optimistic updater \<open>u\<close> and is not disposed.
  When the promise of the request rejects with \<open>e\<close>, in whatever state \<open>s\<close> the
  environment is by then, the handler calls \<open>revertUpdate (u)\<close>, then \<open>run ()\<close>, then
  \<open>onError (e)\<close> once if the caller gave an \<open>onError\<close>, and nothing else: no
  \<open>commitPayload\<close>. When the rejection meets the state that \<open>sendMutation\<close> left, and
  the state before the mutation was synced with \<open>u\<close> not queued, the store and the queue
  are the ones from before the mutation.
\<close>

theorem mutation_failure_path:
  assumes "sendMutation (notify0 c OnCompleted) (notify1 r OnError) operation (Some u) updater s0
           = (m, s1)"
  shows "trace (sendMutation_settled (Rejected e) m s) =
           trace s @ [QueueRevertUpdate (uref u), QueueRun] @ told r (OnError e) \<and>
         (synced s0 \<and> queued_count u s0 = 0 \<longrightarrow>
            store (sendMutation_settled (Rejected e) m s1) = store s0 \<and>
            publishQueue (sendMutation_settled (Rejected e) m s1) = publishQueue s0)"
proof -
  from assms have m: "m_isDisposed m = False" "m_optimisticUpdater m = Some u"
    "m_onError m = notify1 r OnError"
    and s1: "s1 = emits [Fetch (op_node operation) (op_variables operation) (Some \<lparr>force = True\<rparr>)]
                    (pq_run (pq_applyUpdate u s0))"
    by (auto simp: sendMutation_def request_def emit_def emits_def)
  from m have settled: "\<And>s. sendMutation_settled (Rejected e) m s =
      emits (told r (OnError e)) (pq_run (pq_revertUpdate u s))"
    by (simp add: sendMutation_settled_def sendMutation_catch_def)
  have "trace (sendMutation_settled (Rejected e) m s) =
          trace s @ [QueueRevertUpdate (uref u), QueueRun] @ told r (OnError e)"
    by (simp add: settled)
  moreover have "store (sendMutation_settled (Rejected e) m s1) = store s0"
    and "publishQueue (sendMutation_settled (Rejected e) m s1) = publishQueue s0"
    if "synced s0" and "queued_count u s0 = 0"
    using apply_revert_run [OF that] by (simp_all only: settled s1 emits_simps)
  ultimately show ?thesis
    by blast
qed

theorem mutation_failure_path_witness:
  "synced example_environment \<and> queued_count like_updater example_environment = 0 \<and>
   read_field (store (snd example_mutation)) ''post:1'' ''likeCount'' = Some (Scalar (JNum 8)) \<and>
   read_field (store (sendMutation_settled (Rejected (Failure ''offline'')) (fst example_mutation)
      (snd example_mutation))) ''post:1'' ''likeCount'' = Some (Scalar (JNum 7)) \<and>
   trace (sendMutation_settled (Rejected (Failure ''offline'')) (fst example_mutation)
      (snd example_mutation)) =
     trace (snd example_mutation) @
     [QueueRevertUpdate 1, QueueRun, OnError (Failure ''offline'')]"
  using mutation_failure_path [of True True example_operation like_updater None
      example_environment "fst example_mutation" "snd example_mutation" "Failure ''offline''"
      "snd example_mutation"]
    example_facts example_optimistic
  by (simp add: example_mutation_def [symmetric] told_def) (simp add: like_updater_def)

subsection \<open>C2: a mutation whose request succeeds\<close>

text \<open>
  Claim C2. A mutation is sent and is not disposed. When the promise of the request
  resolves with \<open>payload\<close>, the handler calls \<open>revertUpdate\<close> on the optimistic
  updater if there is one, then \<open>commitPayload\<close> with the payload and the caller's
  updater, then \<open>run ()\<close>, then \<open>onCompleted\<close> if the caller gave one. When
  the response meets the state that \<open>sendMutation\<close> left, the store is the one that
  committing the payload on the state before the mutation gives: the optimistic
  prediction has left nothing behind. With an empty queue before and no updater, the
  store is the old store with the writes of the server applied.
\<close>

theorem mutation_success_path:
  assumes "sendMutation (notify0 c OnCompleted) (notify1 r OnError) operation optimisticUpdater
             updater s0 = (m, s1)"
  shows "trace (sendMutation_settled (Resolved payload) m s) =
           trace s @
           (case optimisticUpdater of Some u \<Rightarrow> [QueueRevertUpdate (uref u)] | None \<Rightarrow> []) @
           [QueueCommitPayload (op_fragment operation) payload (map_option uref updater),
            QueueRun] @
           told c OnCompleted \<and>
         (synced s0 \<and> (\<forall>u. optimisticUpdater = Some u \<longrightarrow> queued_count u s0 = 0) \<longrightarrow>
            store (sendMutation_settled (Resolved payload) m s1) =
              store (pq_run (pq_commitPayload (op_fragment operation) payload updater s0))) \<and>
         (synced s0 \<and> entries (publishQueue s0) = [] \<and> updater = None \<longrightarrow>
            store (sendMutation_settled (Resolved payload) m s1) =
              apply_writes (store s0) payload)"
proof -
  note m = sendMutation_fields [OF assms]
  have settled: "\<And>s. sendMutation_settled (Resolved payload) m s =
      emits (told c OnCompleted)
        (pq_run (pq_commitPayload (op_fragment operation) payload updater
          (case optimisticUpdater of Some u \<Rightarrow> pq_revertUpdate u s | None \<Rightarrow> s)))"
    by (simp add: sendMutation_settled_def sendMutation_then_def m(1-6))
  have t: "trace (sendMutation_settled (Resolved payload) m s) =
           trace s @
           (case optimisticUpdater of Some u \<Rightarrow> [QueueRevertUpdate (uref u)] | None \<Rightarrow> []) @
           [QueueCommitPayload (op_fragment operation) payload (map_option uref updater),
            QueueRun] @
           told c OnCompleted"
    by (simp add: settled split: option.split)
  have g: "store (sendMutation_settled (Resolved payload) m s1) =
             store (pq_run (pq_commitPayload (op_fragment operation) payload updater s0))"
    if sy: "synced s0" and fr: "\<forall>u. optimisticUpdater = Some u \<longrightarrow> queued_count u s0 = 0"
  proof (cases optimisticUpdater)
    case None
    then show ?thesis
      by (simp add: settled m(7))
  next
    case (Some u)
    from sy have o: "list_all is_optimistic (entries (publishQueue s0))"
      by (simp add: synced_def)
    from fr Some have f: "filter (\<lambda>e. \<not> is_update_of (uref u) e) (entries (publishQueue s0)) =
        entries (publishQueue s0)"
      by (simp add: queued_count_def filter_but_id)
    from o have fo: "filter is_optimistic (entries (publishQueue s0)) = entries (publishQueue s0)"
      by (rule filter_optimistic_id)
    from Some o f fo show ?thesis
      by (simp add: settled m(7) foldl_commit_optimistic)
  qed
  have h: "store (sendMutation_settled (Resolved payload) m s1) = apply_writes (store s0) payload"
    if sy: "synced s0" and em: "entries (publishQueue s0) = []" and up: "updater = None"
  proof -
    from em have "\<forall>u. optimisticUpdater = Some u \<longrightarrow> queued_count u s0 = 0"
      by (simp add: queued_count_def)
    from g [OF sy this] sy em up show ?thesis
      by (simp add: synced_def)
  qed
  from t g h show ?thesis
    by blast
qed

theorem mutation_success_path_witness:
  "synced example_environment \<and> entries (publishQueue example_environment) = [] \<and>
   read_field (store (snd example_mutation)) ''post:1'' ''likeCount'' = Some (Scalar (JNum 8)) \<and>
   read_field (store (sendMutation_settled (Resolved server_payload) (fst example_mutation)
      (snd example_mutation))) ''post:1'' ''likeCount'' = Some (Scalar (JNum 42)) \<and>
   trace (sendMutation_settled (Resolved server_payload) (fst example_mutation)
      (snd example_mutation)) =
     trace (snd example_mutation) @
     [QueueRevertUpdate 1,
      QueueCommitPayload (op_fragment example_operation) server_payload None,
      QueueRun, OnCompleted]"
  using mutation_success_path [of True True example_operation "Some like_updater" None
      example_environment "fst example_mutation" "snd example_mutation" server_payload
      "snd example_mutation"]
    example_facts example_optimistic
  by (simp add: example_mutation_def [symmetric] told_def)
    (simp add: like_updater_def apply_writes_def server_payload_def read_field_def
       example_environment_def example_records_def)

subsection \<open>C3: exact rollback\<close>

text \<open>
  Claim C3. Apply an optimistic update \<open>u\<close> and flush; let any sequence \<open>xs\<close> of
  \<open>applyUpdate\<close>, \<open>revertUpdate\<close>, \<open>commitPayload\<close> and \<open>run\<close> calls follow; revert
  \<open>u\<close> and flush. The store and the queue are those reached by the same sequence
  without the \<open>applyUpdate (u)\<close>: \<open>run\<close>, then \<open>xs\<close>, then \<open>revertUpdate (u)\<close> and
  \<open>run\<close>.
\<close>

theorem rollback_exact:
  "store (applyUpdate_dispose u (do_ops xs (applyUpdate u s))) =
     store (applyUpdate_dispose u (do_ops xs (pq_run s))) \<and>
   publishQueue (applyUpdate_dispose u (do_ops xs (applyUpdate u s))) =
     publishQueue (applyUpdate_dispose u (do_ops xs (pq_run s)))"
  unfolding applyUpdate_dispose_def
  by (rule pq_run_cong, rule same_but_revert, rule same_but_do_ops, rule same_but_applyUpdate)

theorem rollback_exact_witness:
  "read_field
     (store (applyUpdate_dispose like_updater
        (do_ops [CommitPayload (op_fragment example_operation) server_payload None, Run]
           (applyUpdate like_updater example_environment))))
     ''post:1'' ''likeCount'' = Some (Scalar (JNum 42))"
  using rollback_exact [of like_updater
      "[CommitPayload (op_fragment example_operation) server_payload None, Run]"
      example_environment]
  by (simp add: applyUpdate_dispose_def example_environment_def server_payload_def
        apply_writes_def read_field_def example_records_def)

subsection \<open>C4: the optimistic entry and a late dispose\<close>

text \<open>
  Claim C4. The optimistic entry of a mutation is to be removed once, on the first
  terminal transition, and a \<open>dispose\<close> after the response is to do nothing. In the
  code only \<open>dispose\<close> clears \<open>optimisticUpdater\<close>; the two handlers of the
  request revert the update and leave the variable set. In the scenario the mutation
  has been resolved, its entry is gone and the store shows 42, and its closure still
  holds the updater. A \<open>dispose\<close> then calls \<open>revertUpdate\<close> and \<open>run\<close> a second
  time. When a second mutation has been sent with the same updater function and is still
  waiting, with the store at 43, that \<open>dispose\<close> of the first handle removes the
  entry of the second mutation, and the store goes back to 42.
\<close>

theorem dispose_after_resolution_reverts_again:
  "m_optimisticUpdater (fst example_mutation) = Some like_updater \<and>
   queued_count like_updater example_resolved = 0 \<and>
   read_field (store example_resolved) ''post:1'' ''likeCount'' = Some (Scalar (JNum 42)) \<and>
   trace (snd (sendMutation_dispose (fst example_mutation) example_resolved)) =
     trace example_resolved @ [QueueRevertUpdate 1, QueueRun] \<and>
   m_isDisposed (fst example_second_mutation) = False \<and>
   queued_count like_updater (snd example_second_mutation) = 1 \<and>
   read_field (store (snd example_second_mutation)) ''post:1'' ''likeCount'' =
     Some (Scalar (JNum 43)) \<and>
   trace (snd example_disposed_late) =
     trace (snd example_second_mutation) @ [QueueRevertUpdate 1, QueueRun] \<and>
   queued_count like_updater (snd example_disposed_late) = 0 \<and>
   read_field (store (snd example_disposed_late)) ''post:1'' ''likeCount'' =
     Some (Scalar (JNum 42))"
proof -
  have u: "uref like_updater = 1"
    by (simp add: like_updater_def)
  have a: "uapply like_updater rs =
      (case read_field rs ''post:1'' ''likeCount'' of
         Some (Scalar (JNum n)) \<Rightarrow> [(''post:1'', ''likeCount'', Scalar (JNum (n + 1)))]
       | _ \<Rightarrow> [])" for rs
    by (simp add: like_updater_def)
  have d: "sendMutation_dispose (fst example_mutation) s =
      ((fst example_mutation)\<lparr>m_optimisticUpdater := None, m_isDisposed := True\<rparr>,
       pq_run (pq_revertUpdate like_updater s))" for s
    by (simp add: sendMutation_dispose_def example_mutation_fields)
  have w: "read_field (apply_writes rs [(''post:1'', ''likeCount'', v)]) ''post:1'' ''likeCount''
      = Some v" for rs v
    by (simp add: apply_writes_def read_field_def)
  have s2: "entries (publishQueue (snd example_second_mutation)) = [Optimistic like_updater]"
    "base (publishQueue (snd example_second_mutation)) = base (publishQueue example_resolved)"
    "store (snd example_second_mutation) =
       apply_writes (base (publishQueue example_resolved))
         [(''post:1'', ''likeCount'', Scalar (JNum 43))]"
    "trace (snd example_second_mutation) =
       trace example_resolved @ [QueueApplyUpdate 1, QueueRun,
         Fetch (op_node example_operation) (op_variables example_operation)
           (Some \<lparr>force = True\<rparr>)]"
    by (simp_all add: example_second_mutation_def sendMutation_def example_resolved_state u a)
  have n: "m_isDisposed (fst example_second_mutation) = False"
    by (simp add: example_second_mutation_def sendMutation_def)
  show ?thesis
    by (simp add: example_mutation_fields example_resolved_state queued_count_def d u
          example_disposed_late_def s2 w n)
qed

subsection \<open>C5: a disposed query\<close>

text \<open>
  Claim C5. Once the handle of a query has been disposed, one or more times, the
  settling of the request, resolved or rejected, leaves the state as it is: no call of
  the queue, no write to the store, no callback.
\<close>

theorem query_disposal_suppression:
  "sendQuery_settled outcome ((sendQuery_dispose ^^ Suc n) q) s = s"
  using dispose_funpow [of n q]
  by (simp add: sendQuery_settled_def sendQuery_then_def sendQuery_catch_def
        split: settled.split del: funpow.simps)

theorem query_disposal_suppression_witness:
  "sendQuery_settled (Resolved server_payload) (sendQuery_dispose (fst example_query))
     (snd example_query) = snd example_query \<and>
   sendQuery_settled (Rejected (Failure ''offline'')) (sendQuery_dispose (fst example_query))
     (snd example_query) = snd example_query"
  using query_disposal_suppression [of "Resolved server_payload" 0 "fst example_query"
      "snd example_query"]
    query_disposal_suppression [of "Rejected (Failure ''offline'')" 0 "fst example_query"
      "snd example_query"]
  by simp

subsection \<open>C6: a response without data\<close>

text \<open>
  Claim C6. For a response whose \<open>data\<close> is null, \<open>normalizePayload\<close> throws an
  error whose \<open>source\<close> holds the errors, the operation and the variables, and whose
  message shows \<open>(No errors)\<close> when the errors are missing or empty. The code tests
  \<open>errors\<close> for truth only, and an empty array is true: for \<open>{data: null, errors: []}\<close>
  the text put in the message is the empty string, not \<open>(No errors)\<close>.
\<close>

theorem no_data_empty_errors:
  "normalizePayload example_normalizer (op_node example_operation) []
     \<lparr>data = JNull, errors = Some []\<rparr> =
   ([], Inl (RelayError
      \<lparr>err_name = ''RelayNetwork'', err_format = no_data_format,
       err_args = [''LikeMutation'', ''''],
       err_source = Some \<lparr>src_errors = Some [], src_operation = op_node example_operation,
                          src_variables = []\<rparr>\<rparr>))"
  by (simp add: normalizePayload_no_data example_operation_def
        example_createOperationSelector_def example_getOperation_def)

subsection \<open>C7: data together with errors\<close>

text \<open>
  Claim C7. For a response that has data and a list of errors that is not empty,
  \<open>normalizePayload\<close> logs one warning that lists the errors and returns the
  normalized payload; it does not throw. A query that is not disposed then commits
  the payload, flushes, and calls \<open>onNext\<close> and \<open>onCompleted\<close>; a mutation that is
  not disposed commits it, flushes, and calls \<open>onCompleted\<close>. \<open>onError\<close> is not
  called. In a synced state the writes of the payload reach the base of the queue and
  the store: the base is the old base with the payload applied (and the updater of the
  mutation after it), the optimistic entries other than the reverted one stay queued,
  and the store is that base with those entries on top; with an empty queue the store
  is the old store with the payload applied.
\<close>

theorem partial_data_with_errors:
  assumes "data payload \<noteq> JNull" and "errors payload = Some (e # es)"
    and "sendQuery cacheConfig (notify0 c OnCompleted) (notify1 r OnError) (notify1 n OnNext)
           operation s0 = (q, s1)"
    and "sendMutation (notify0 c' OnCompleted) (notify1 r' OnError) operation optimisticUpdater
           updater t0 = (m, t1)"
  shows "(let w = Warning warning_format (cb_name (op_node operation)) (op_variables operation)
                    (join newline (map (\<lambda>x. ''- '' @ message x) (e # es)));
              relayPayload = nrm (root_selector (op_node operation) (op_variables operation))
                    (data payload) (Some \<lparr>handleStrippedNulls = True\<rparr>);
              queried = sendQuery_fetched nrm (Resolved payload) q s;
              mutated = sendMutation_fetched nrm (Resolved payload) m s;
              kept = (case optimisticUpdater of
                        Some u \<Rightarrow> filter (\<lambda>x. \<not> is_update_of (uref u) x) (entries (publishQueue s))
                      | None \<Rightarrow> entries (publishQueue s))
          in normalizePayload nrm (op_node operation) (op_variables operation) payload =
               ([w], Inr relayPayload) \<and>
             trace queried =
               trace s @
               [w, QueueCommitPayload (op_fragment operation) relayPayload None, QueueRun] @
               told n (OnNext relayPayload) @ told c OnCompleted \<and>
             trace mutated =
               trace s @ [w] @
               (case optimisticUpdater of Some u \<Rightarrow> [QueueRevertUpdate (uref u)] | None \<Rightarrow> []) @
               [QueueCommitPayload (op_fragment operation) relayPayload (map_option uref updater),
                QueueRun] @
               told c' OnCompleted \<and>
             (synced s \<longrightarrow>
                base (publishQueue queried) = apply_writes (base (publishQueue s)) relayPayload \<and>
                entries (publishQueue queried) = entries (publishQueue s) \<and>
                store queried =
                  foldl layer_entry (apply_writes (base (publishQueue s)) relayPayload)
                    (entries (publishQueue s))) \<and>
             (synced s \<and> entries (publishQueue s) = [] \<longrightarrow>
                store queried = apply_writes (store s) relayPayload) \<and>
             (synced s \<longrightarrow>
                base (publishQueue mutated) =
                  commit_entry (base (publishQueue s))
                    (Commit (op_fragment operation) relayPayload updater) \<and>
                entries (publishQueue mutated) = kept \<and>
                store mutated =
                  foldl layer_entry
                    (commit_entry (base (publishQueue s))
                       (Commit (op_fragment operation) relayPayload updater))
                    kept) \<and>
             (synced t0 \<and> entries (publishQueue t0) = [] \<and> updater = None \<longrightarrow>
                store (sendMutation_fetched nrm (Resolved payload) m t1) =
                  apply_writes (store t0) relayPayload))"
proof -
  define w where "w = Warning warning_format (cb_name (op_node operation))
      (op_variables operation) (join newline (map (\<lambda>x. ''- '' @ message x) (e # es)))"
  define relayPayload where "relayPayload =
      nrm (root_selector (op_node operation) (op_variables operation)) (data payload)
        (Some \<lparr>handleStrippedNulls = True\<rparr>)"
  define kept where "kept = (\<lambda>s :: Environment. case optimisticUpdater of
      Some u \<Rightarrow> filter (\<lambda>x. \<not> is_update_of (uref u) x) (entries (publishQueue s))
    | None \<Rightarrow> entries (publishQueue s))"
  note np = normalizePayload_errors [OF assms(1,2), of nrm "op_node operation"
      "op_variables operation", folded w_def relayPayload_def]
  note q = sendQuery_fields [OF assms(3)]
  note m = sendMutation_fields [OF assms(4)]
  have qf: "\<And>s. sendQuery_fetched nrm (Resolved payload) q s =
      emits (told c OnCompleted) (emits (told n (OnNext relayPayload))
        (pq_run (pq_commitPayload (op_fragment operation) relayPayload None (emits [w] s))))"
    by (simp add: sendQuery_fetched_def request_settled_def q np sendQuery_settled_def
          sendQuery_then_def)
  have mf: "\<And>s. sendMutation_fetched nrm (Resolved payload) m s =
      emits (told c' OnCompleted)
        (pq_run (pq_commitPayload (op_fragment operation) relayPayload updater
          (case optimisticUpdater of
             Some u \<Rightarrow> pq_revertUpdate u (emits [w] s)
           | None \<Rightarrow> emits [w] s)))"
    by (simp add: sendMutation_fetched_def request_settled_def m(1-6) np
          sendMutation_settled_def sendMutation_then_def)
  have 2: "trace (sendQuery_fetched nrm (Resolved payload) q s) =
             trace s @
             [w, QueueCommitPayload (op_fragment operation) relayPayload None, QueueRun] @
             told n (OnNext relayPayload) @ told c OnCompleted"
    by (simp add: qf)
  have 3: "trace (sendMutation_fetched nrm (Resolved payload) m s) =
             trace s @ [w] @
             (case optimisticUpdater of Some u \<Rightarrow> [QueueRevertUpdate (uref u)] | None \<Rightarrow> []) @
             [QueueCommitPayload (op_fragment operation) relayPayload (map_option uref updater),
              QueueRun] @
             told c' OnCompleted"
    by (simp add: mf split: option.split)
  have 4: "base (publishQueue (sendQuery_fetched nrm (Resolved payload) q s)) =
             apply_writes (base (publishQueue s)) relayPayload \<and>
           entries (publishQueue (sendQuery_fetched nrm (Resolved payload) q s)) =
             entries (publishQueue s) \<and>
           store (sendQuery_fetched nrm (Resolved payload) q s) =
             foldl layer_entry (apply_writes (base (publishQueue s)) relayPayload)
               (entries (publishQueue s))"
    if "synced s" for s
  proof -
    from that have o: "list_all is_optimistic (entries (publishQueue s))"
      by (simp add: synced_def)
    show ?thesis
      by (simp add: qf foldl_commit_optimistic [OF o] filter_optimistic_id [OF o])
  qed
  have 5: "store (sendQuery_fetched nrm (Resolved payload) q s) =
             apply_writes (store s) relayPayload"
    if "synced s" and "entries (publishQueue s) = []" for s
    using 4 [OF that(1)] that by (simp add: synced_def)
  have 6: "base (publishQueue (sendMutation_fetched nrm (Resolved payload) m s)) =
             commit_entry (base (publishQueue s))
               (Commit (op_fragment operation) relayPayload updater) \<and>
           entries (publishQueue (sendMutation_fetched nrm (Resolved payload) m s)) = kept s \<and>
           store (sendMutation_fetched nrm (Resolved payload) m s) =
             foldl layer_entry
               (commit_entry (base (publishQueue s))
                  (Commit (op_fragment operation) relayPayload updater))
               (kept s)"
    if "synced s" for s
  proof -
    from that have o: "list_all is_optimistic (entries (publishQueue s))"
      by (simp add: synced_def)
    show ?thesis
    proof (cases optimisticUpdater)
      case None
      then show ?thesis
        by (simp add: mf kept_def foldl_commit_optimistic [OF o] filter_optimistic_id [OF o])
    next
      case (Some u)
      then show ?thesis
        by (simp add: mf kept_def foldl_commit_optimistic [OF list_all_optimistic_but [OF o]]
              filter_optimistic_id [OF list_all_optimistic_but [OF o]] del: filter_filter)
    qed
  qed
  have 7: "store (sendMutation_fetched nrm (Resolved payload) m t1) =
             apply_writes (store t0) relayPayload"
    if sy: "synced t0" and em: "entries (publishQueue t0) = []" and up: "updater = None"
  proof (cases optimisticUpdater)
    case None
    with sy em up show ?thesis
      by (simp add: mf m(7) synced_def)
  next
    case (Some u)
    with sy em up show ?thesis
      by (simp add: mf m(7) synced_def)
  qed
  from np 2 3 4 5 6 7 show ?thesis
    unfolding Let_def w_def [symmetric] relayPayload_def [symmetric]
    by (simp add: kept_def)
qed

theorem partial_data_with_errors_witness:
  "data partial_response \<noteq> JNull \<and>
   errors partial_response = Some [\<lparr>message = ''viewer is rate limited''\<rparr>] \<and>
   synced (snd example_query) \<and> entries (publishQueue (snd example_query)) = [] \<and>
   synced example_environment \<and> entries (publishQueue example_environment) = [] \<and>
   trace (sendQuery_fetched example_normalizer (Resolved partial_response) (fst example_query)
      (snd example_query)) =
     trace (snd example_query) @
     [Warning warning_format ''LikeMutation'' [] ''- viewer is rate limited'',
      QueueCommitPayload (op_fragment example_operation) server_payload None,
      QueueRun, OnNext server_payload, OnCompleted] \<and>
   read_field (store (sendQuery_fetched example_normalizer (Resolved partial_response)
      (fst example_query) (snd example_query))) ''post:1'' ''likeCount'' =
     Some (Scalar (JNum 42)) \<and>
   read_field (store (sendMutation_fetched example_normalizer (Resolved partial_response)
      (fst example_mutation) (snd example_mutation))) ''post:1'' ''likeCount'' =
     Some (Scalar (JNum 42))"
proof -
  have d: "data partial_response \<noteq> JNull"
    and e: "errors partial_response = Some [\<lparr>message = ''viewer is rate limited''\<rparr>]"
    by (simp_all add: partial_response_def)
  have q: "sendQuery None (notify0 True OnCompleted) (notify1 True OnError)
             (notify1 True OnNext) example_operation example_environment =
           (fst example_query, snd example_query)"
    and m: "sendMutation (notify0 True OnCompleted) (notify1 True OnError) example_operation
              (Some like_updater) None example_environment =
            (fst example_mutation, snd example_mutation)"
    by (simp_all add: example_query_def example_mutation_def)
  have x: "cb_name (op_node example_operation) = ''LikeMutation''"
    "op_variables example_operation = []"
    "example_normalizer (root_selector (op_node example_operation) []) (data partial_response)
       (Some \<lparr>handleStrippedNulls = True\<rparr>) = server_payload"
    by (simp_all add: example_operation_def example_createOperationSelector_def
          example_getOperation_def example_normalizer_def partial_response_def
          server_payload_def)
  have y: "synced (snd example_query)" "entries (publishQueue (snd example_query)) = []"
    "store (snd example_query) = example_records"
    "synced example_environment" "entries (publishQueue example_environment) = []"
    "store example_environment = example_records"
    "base (publishQueue (snd example_query)) = example_records"
    by (simp_all add: example_query_def sendQuery_def synced_def example_environment_def)
  have z: "read_field (apply_writes example_records server_payload) ''post:1'' ''likeCount'' =
      Some (Scalar (JNum 42))"
    by (simp add: apply_writes_def server_payload_def read_field_def)
  from partial_data_with_errors [OF d e q m, of example_normalizer "snd example_query"]
    d e y z
  show ?thesis
    by (simp add: Let_def told_def x)
qed

subsection \<open>C8: the end of a subscription\<close>

text \<open>
  Claim C8. A subscription is opened by \<open>sendQuerySubscription\<close> and is not disposed.
  A rejected fetch calls \<open>onError\<close> once and nothing else. A resolved fetch whose
  payload normalizes commits it, flushes, calls \<open>onNext\<close> and then \<open>onCompleted\<close>
  once; one whose normalization throws calls \<open>onError\<close> once instead. What
  \<open>normalizePayload\<close> itself logs are warnings only. After \<open>dispose\<close>, the settling
  of the fetch leaves the state as it is.
\<close>

theorem subscription_terminal_events:
  assumes "sendQuerySubscription cacheConfig (notify0 c OnCompleted) (notify1 r OnError)
             (notify1 n OnNext) operation s0 = (sub, s1)"
    and "normalizePayload nrm (op_node operation) (op_variables operation) payload = (ws, result)"
  shows "requestSubscription_settled nrm (Rejected e) sub s = emits (told r (OnError e)) s \<and>
         list_all is_warning ws \<and>
         (\<forall>err. result = Inl err \<longrightarrow>
            requestSubscription_settled nrm (Resolved payload) sub s =
              emits (ws @ told r (OnError err)) s) \<and>
         (\<forall>relayPayload. result = Inr relayPayload \<longrightarrow>
            trace (requestSubscription_settled nrm (Resolved payload) sub s) =
              trace s @ ws @
              [QueueCommitPayload (op_fragment operation) relayPayload None, QueueRun] @
              told n (OnNext relayPayload) @ told c OnCompleted) \<and>
         requestSubscription_settled nrm fetched (requestSubscription_dispose sub) s = s"
proof -
  note f = sendQuerySubscription_fields [OF assms(1)]
  have 1: "requestSubscription_settled nrm (Rejected e) sub s = emits (told r (OnError e)) s"
    by (simp add: requestSubscription_settled_def f)
  have 2: "list_all is_warning ws"
  proof (cases "data payload = JNull")
    case True
    from normalizePayload_no_data [OF True, of nrm] assms(2) show ?thesis
      by simp
  next
    case False
    from normalizePayload_data(2) [OF False, of nrm "op_node operation" "op_variables operation"]
      assms(2)
    show ?thesis
      by simp
  qed
  have 3: "requestSubscription_settled nrm (Resolved payload) sub s =
             emits (ws @ told r (OnError err)) s" if "result = Inl err" for err
    using that assms(2) by (simp add: requestSubscription_settled_def f emits_def)
  have 4: "trace (requestSubscription_settled nrm (Resolved payload) sub s) =
             trace s @ ws @
             [QueueCommitPayload (op_fragment operation) relayPayload None, QueueRun] @
             told n (OnNext relayPayload) @ told c OnCompleted"
    if "result = Inr relayPayload" for relayPayload
    using that assms(2) by (simp add: requestSubscription_settled_def f call1_Some)
  have 5: "requestSubscription_settled nrm fetched (requestSubscription_dispose sub) s = s"
    by (simp add: requestSubscription_settled_def requestSubscription_dispose_def
          split: settled.split)
  from 1 2 3 4 5 show ?thesis
    by blast
qed

theorem subscription_terminal_events_witness:
  "trace (requestSubscription_settled example_normalizer (Resolved partial_response)
      (fst example_subscription) (snd example_subscription)) =
     trace (snd example_subscription) @
     [Warning warning_format ''LikeMutation'' [] ''- viewer is rate limited'',
      QueueCommitPayload (op_fragment example_operation) server_payload None,
      QueueRun, OnNext server_payload, OnCompleted] \<and>
   trace (requestSubscription_settled example_normalizer (Rejected (Failure ''offline''))
      (fst example_subscription) (snd example_subscription)) =
     trace (snd example_subscription) @ [OnError (Failure ''offline'')] \<and>
   requestSubscription_settled example_normalizer (Resolved partial_response)
      (requestSubscription_dispose (fst example_subscription)) (snd example_subscription) =
     snd example_subscription"
proof -
  have sub: "sendQuerySubscription None (notify0 True OnCompleted) (notify1 True OnError)
               (notify1 True OnNext) example_operation example_environment =
             (fst example_subscription, snd example_subscription)"
    by (simp add: example_subscription_def)
  from subscription_terminal_events [OF sub example_normalized,
      of "Failure ''offline''" "snd example_subscription" "Resolved partial_response"]
  show ?thesis
    by (simp add: told_def)
qed

subsection \<open>C9: the options given to the normalizer\<close>

text \<open>
  Claim C9. Whenever \<open>normalizePayload\<close> normalizes the response of the network, it
  calls the normalizer with the options \<open>{handleStrippedNulls: true}\<close>;
  \<open>commitPayload\<close> of the environment calls it with the selector and the payload
  only, without options, and commits and flushes what it returns.
\<close>

theorem stripped_nulls_split:
  "(data payload \<noteq> JNull \<longrightarrow>
      snd (normalizePayload nrm operation variables payload) =
        Inr (nrm (root_selector operation variables) (data payload)
               (Some \<lparr>handleStrippedNulls = True\<rparr>))) \<and>
   commitPayload nrm selector d s = pq_run (pq_commitPayload selector (nrm selector d None) None s)"
  by (simp add: normalizePayload_data(1) commitPayload_def)

theorem stripped_nulls_split_witness:
  "data \<lparr>data = JObj [], errors = None\<rparr> \<noteq> JNull \<and>
   snd (normalizePayload example_normalizer (example_getOperation ''LikeMutation'') []
          \<lparr>data = JObj [], errors = None\<rparr>) =
     Inr [(''post:1'', ''likeCount'', Scalar JNull)] \<and>
   trace (commitPayload example_normalizer
            (root_selector (example_getOperation ''LikeMutation'') []) (JObj [])
            example_environment) =
     [QueueCommitPayload (root_selector (example_getOperation ''LikeMutation'') []) [] None,
      QueueRun]"
  using stripped_nulls_split [of "\<lparr>data = JObj [], errors = None\<rparr>" example_normalizer
      "example_getOperation ''LikeMutation''" "[]"
      "root_selector (example_getOperation ''LikeMutation'') []" "JObj []" example_environment]
  by (simp add: example_normalizer_def example_environment_def)

subsection \<open>C10: what onCompleted of a mutation receives\<close>

text \<open>
  Claim C10. A mutation is committed by \<open>commitRelayStaticMutation\<close> and is not
  disposed. When the request resolves, the payload is committed and the queue flushed,
  giving the state \<open>s2\<close>. If the configuration has an \<open>onCompleted\<close>, the fragment of
  the operation is looked up in the store of \<open>s2\<close> and \<open>onCompleted\<close> is called with
  the data of that snapshot; if it has none, nothing more happens and no lookup is
  made.
\<close>

theorem mutation_completed_with_snapshot:
  assumes "commitRelayStaticMutation getOperation createOperationSelector lk config s0 = (m, s1)"
  shows "(let operation = createOperationSelector (getOperation (cfg_mutation config))
                (cfg_variables config);
              s2 = pq_run (pq_commitPayload (op_fragment operation) payload (cfg_updater config)
                (case cfg_optimisticUpdater config of
                   Some u \<Rightarrow> pq_revertUpdate u s
                 | None \<Rightarrow> s))
          in sendMutation_settled (Resolved payload) m s =
               (case cfg_onCompleted config of
                  Some onCompleted \<Rightarrow>
                    onCompleted (snap_data (lk (store s2) (op_fragment operation)))
                      (emit (StoreLookup (op_fragment operation)) s2)
                | None \<Rightarrow> s2))"
proof -
  note m = sendMutation_fields [OF assms [unfolded commitRelayStaticMutation_def Let_def]]
  show ?thesis
    by (simp add: sendMutation_settled_def sendMutation_then_def m(1-6) call0_def
          lookup_def Let_def split: option.split)
qed

theorem mutation_completed_with_snapshot_witness:
  "trace (sendMutation_settled (Resolved server_payload)
      (fst (commitRelayStaticMutation example_getOperation example_createOperationSelector
              example_lookup example_config example_environment))
      (snd example_mutation)) =
   trace (snd example_mutation) @
   [QueueRevertUpdate 1,
    QueueCommitPayload (op_fragment example_operation) server_payload None,
    QueueRun,
    StoreLookup (op_fragment example_operation),
    OnCompletedData (JObj [(''likeCount'', JNum 42)])]"
proof -
  have c: "commitRelayStaticMutation example_getOperation example_createOperationSelector
             example_lookup example_config example_environment =
           (fst (commitRelayStaticMutation example_getOperation example_createOperationSelector
                   example_lookup example_config example_environment),
            snd (commitRelayStaticMutation example_getOperation example_createOperationSelector
                   example_lookup example_config example_environment))"
    by simp
  from mutation_completed_with_snapshot [OF c, of server_payload "snd example_mutation"]
  show ?thesis
    by (simp add: Let_def example_config_def example_operation_def [symmetric] notify1_def
          like_updater_def example_lookup_def read_field_def example_mutation_def
          sendMutation_def example_environment_def example_records_def apply_writes_def
          server_payload_def)
qed

end
